theory Spec2Isabelle
  imports Main
begin

section \<open>JavaScript values used by the action\<close>

text \<open>
  Strings are lists of characters. A JavaScript Number is a double; the only Numbers
  the action computes are results of \<open>parseInt(s, 10)\<close>, which are NaN, an integer
  valued double, or an infinity. \<open>Num i\<close> is the double whose value is the integer
  \<open>i\<close> (negative zero and zero are both \<open>Num 0\<close>; the program never tells them apart).
\<close>

datatype number = NaN | Num int | PosInf | NegInf

definition isNaN :: "number \<Rightarrow> bool" where
  "isNaN n = (n = NaN)"

text \<open>The comparison \<open>n < 0\<close> of JavaScript: false on NaN.\<close>

fun ltZero :: "number \<Rightarrow> bool" where
  "ltZero NaN = False"
| "ltZero (Num i) = (i < 0)"
| "ltZero PosInf = False"
| "ltZero NegInf = True"

text \<open>Values that can be thrown: an \<open>Error\<close> object (message, optional stack) or any other value.\<close>

datatype jsval = JUndefined | JNull | JBool bool | JNumber number | JString string

datatype thrown = ErrorObj string "string option" | NonError jsval

text \<open>\<open>a || b\<close> on strings: the empty string is the only falsy string.\<close>

definition orElse :: "string \<Rightarrow> string \<Rightarrow> string" where
  "orElse a b = (if a = [] then b else a)"

text \<open>\<open>String.prototype.includes\<close>: the search string occurs at some position.\<close>

fun startsWith :: "string \<Rightarrow> string \<Rightarrow> bool" where
  "startsWith s [] = True"
| "startsWith [] (c # cs) = False"
| "startsWith (x # xs) (c # cs) = (x = c \<and> startsWith xs cs)"

fun stringIncludes :: "string \<Rightarrow> string \<Rightarrow> bool" where
  "stringIncludes [] sub = (sub = [])"
| "stringIncludes (x # xs) sub = (startsWith (x # xs) sub \<or> stringIncludes xs sub)"

definition boolToString :: "bool \<Rightarrow> string" where
  "boolToString b = (if b then ''true'' else ''false'')"

subsection \<open>parseInt with radix 10\<close>

text \<open>
  ECMAScript \<open>parseInt(string, 10)\<close>: leading white space is skipped, one sign is
  read, then the longest run of decimal digits; no digit gives NaN. The integer read is
  converted to the nearest double (ties to even), which overflows to an infinity from
  \<open>2^1024 - 2^970\<close> on. The white space characters are those among the 256 characters
  of \<open>char\<close>: tab, line feed, vertical tab, form feed, carriage return, space and
  no-break space.
\<close>

definition isWhiteSpace :: "char \<Rightarrow> bool" where
  "isWhiteSpace c = (of_char c \<in> {9, 10, 11, 12, 13, 32, 160 :: nat})"

text \<open>
  \<open>String.prototype.trim\<close>, which removes the same white space from both ends: what an
  input source that trims, as \<open>core.getInput\<close> does by default, applies to the raw value.
\<close>

definition trimString :: "string \<Rightarrow> string" where
  "trimString s = rev (dropWhile isWhiteSpace (rev (dropWhile isWhiteSpace s)))"

definition isDigit :: "char \<Rightarrow> bool" where
  "isDigit c = (48 \<le> (of_char c :: nat) \<and> (of_char c :: nat) \<le> 57)"

definition digitVal :: "char \<Rightarrow> nat" where
  "digitVal c = of_char c - 48"

definition digitsValue :: "string \<Rightarrow> nat" where
  "digitsValue Z = foldl (\<lambda>acc c. 10 * acc + digitVal c) 0 Z"

fun bitLength :: "nat \<Rightarrow> nat" where
  "bitLength n = (if n = 0 then 0 else Suc (bitLength (n div 2)))"

declare bitLength.simps [simp del]

text \<open>The integer nearest to \<open>n\<close> with at most 53 significant bits, ties to even.\<close>

definition roundToDouble :: "nat \<Rightarrow> nat" where
  "roundToDouble n =
     (if n < 2 ^ 53 then n
      else let k = bitLength n - 53;
               q = n div 2 ^ k;
               r = n mod 2 ^ k;
               half = 2 ^ (k - 1)
           in (if half < r \<or> (r = half \<and> odd q) then q + 1 else q) * 2 ^ k)"

definition toNumber :: "bool \<Rightarrow> nat \<Rightarrow> number" where
  "toNumber negative n =
     (let r = roundToDouble n
      in if 2 ^ 1024 \<le> r then (if negative then NegInf else PosInf)
         else Num (if negative then - int r else int r))"

definition parseInt10 :: "string \<Rightarrow> number" where
  "parseInt10 inputString =
     (let S = dropWhile isWhiteSpace inputString;
          negative = (case S of [] \<Rightarrow> False | c # _ \<Rightarrow> c = CHR ''-'');
          S' = (case S of [] \<Rightarrow> []
                | c # cs \<Rightarrow> if c = CHR ''+'' \<or> c = CHR ''-'' then cs else S);
          Z = takeWhile isDigit S'
      in if Z = [] then NaN else toNumber negative (digitsValue Z))"

section \<open>The action: \<open>src/main.ts\<close>\<close>

record ActionInputs =
  token :: string
  milliseconds :: string
  exampleInput :: string

record ActionOutputs =
  time :: string
  result :: string
  processed :: bool

text \<open>The data of the repository that \<open>octokit.rest.repos.get\<close> resolves with.\<close>

record RepoData =
  full_name :: string
  name :: string
  owner_login :: string

text \<open>
  The calls the action makes on its collaborators, in order: the logging and output
  functions of \<open>@actions/core\<close>, the request \<open>repos.get\<close> and \<open>wait\<close>.
\<close>

datatype event =
    CoreInfo string
  | CoreWarning string
  | CoreError string
  | CoreDebug string
  | SetOutput string string
  | SetFailed string
  | ReposGetCall string string
  | WaitCall number

text \<open>
  An Octokit client, as far as the action uses it: \<open>rest.repos.get\<close> takes owner and
  repository name and rejects (\<open>Inl\<close>) or resolves (\<open>Inr\<close>).
\<close>

type_synonym octokit = "string \<Rightarrow> string \<Rightarrow> thrown + RepoData"

text \<open>
  What one run is given by its environment. None of it is code of \<open>main.ts\<close>:
  \<open>getInput\<close> is \<open>core.getInput\<close> (the library's own returns the raw input trimmed,
  the mocks of the tests return what they are told); \<open>getOctokit\<close> is
  \<open>github.getOctokit\<close>, which may throw; \<open>contextOwner\<close> and \<open>contextRepo\<close> are \<open>github.context.repo\<close>;
  \<open>wait\<close> is the delay of \<open>./wait.js\<close>, \<open>None\<close> when its promise resolves;
  \<open>toTimeString\<close> is \<open>new Date().toTimeString()\<close> when the delay is over;
  \<open>numberToString\<close> is the conversion of a Number inside a template literal;
  \<open>errorStack\<close> is the \<open>stack\<close> property the engine gives to \<open>new Error(message)\<close>.
\<close>

record env =
  getInput :: "string \<Rightarrow> string"
  getOctokit :: "string \<Rightarrow> thrown + octokit"
  contextOwner :: string
  contextRepo :: string
  wait :: "number \<Rightarrow> thrown option"
  toTimeString :: string
  numberToString :: "number \<Rightarrow> string"
  errorStack :: "string \<Rightarrow> string option"

definition newError :: "env \<Rightarrow> string \<Rightarrow> thrown" where
  "newError e message = ErrorObj message (errorStack e message)"

text \<open>
  Every function returns the calls it made and either the value thrown (\<open>Inl\<close>) or its
  result (\<open>Inr\<close>).
\<close>

definition getActionInputs :: "env \<Rightarrow> event list \<times> (thrown + ActionInputs)" where
  "getActionInputs e =
     (let token = getInput e ''token'';
          milliseconds = orElse (getInput e ''milliseconds'') ''1000'';
          exampleInput = orElse (getInput e ''example-input'') ''default''
      in if token = [] then
           ([], Inl (newError e ''Input required and not supplied: token''))
         else
           let ms = parseInt10 milliseconds
           in if isNaN ms \<or> ltZero ms then
                ([], Inl (newError e (''Invalid milliseconds value: '' @ milliseconds
                                       @ ''. Must be a non-negative number.'')))
              else
                ([CoreInfo (''Validated inputs: milliseconds='' @ milliseconds
                            @ '', example-input='' @ exampleInput)],
                 Inr \<lparr>token = token, milliseconds = milliseconds,
                      exampleInput = exampleInput\<rparr>))"

text \<open>
  \<open>processWithGitHubAPI\<close>, the body of its \<open>try\<close> block: the request, the two
  progress lines, the delay and the composition of the outputs.
\<close>

definition processWithGitHubAPI_try ::
  "env \<Rightarrow> octokit \<Rightarrow> ActionInputs \<Rightarrow> event list \<times> (thrown + ActionOutputs)" where
  "processWithGitHubAPI_try e octokit inputs =
     (let log1 = [CoreInfo ''Starting GitHub API processing...'',
                  ReposGetCall (contextOwner e) (contextRepo e)]
      in case octokit (contextOwner e) (contextRepo e) of
           Inl error \<Rightarrow> (log1, Inl error)
         | Inr repo \<Rightarrow>
             let ms = parseInt10 (milliseconds inputs);
                 log2 = log1 @
                   [CoreInfo (''Processing repository: '' @ full_name repo),
                    CoreInfo (''Processing for '' @ numberToString e ms @ '' milliseconds...''),
                    WaitCall ms]
             in case wait e ms of
                  Some error \<Rightarrow> (log2, Inl error)
                | None \<Rightarrow>
                    (log2,
                     Inr \<lparr>time = toTimeString e,
                          result = ''Processed '' @ exampleInput inputs @ '' for '' @ full_name repo,
                          processed = True\<rparr>))"

text \<open>Its \<open>catch\<close> block, which always throws: the calls made and the value thrown.\<close>

fun processWithGitHubAPI_catch :: "env \<Rightarrow> thrown \<Rightarrow> event list \<times> thrown" where
  "processWithGitHubAPI_catch e (ErrorObj message stack) =
     (if stringIncludes message ''rate limit'' then
        ([CoreWarning ''Rate limit encountered. Consider adding retry logic.''],
         newError e ''GitHub API rate limit exceeded. Please try again later.'')
      else if stringIncludes message ''Not Found'' then
        ([], newError e ''Repository not found or token lacks necessary permissions.'')
      else
        ([], newError e (''GitHub API error: '' @ message)))"
| "processWithGitHubAPI_catch e (NonError v) = ([], NonError v)"

text \<open>\<open>github.getOctokit\<close> is called before the \<open>try\<close>: what it throws is not caught here.\<close>

definition processWithGitHubAPI ::
  "env \<Rightarrow> ActionInputs \<Rightarrow> event list \<times> (thrown + ActionOutputs)" where
  "processWithGitHubAPI e inputs =
     (case getOctokit e (token inputs) of
        Inl error \<Rightarrow> ([], Inl error)
      | Inr octokit \<Rightarrow>
          (case processWithGitHubAPI_try e octokit inputs of
             (log, Inr outputs) \<Rightarrow> (log, Inr outputs)
           | (log, Inl error) \<Rightarrow>
               (log @ fst (processWithGitHubAPI_catch e error),
                Inl (snd (processWithGitHubAPI_catch e error)))))"

definition setActionOutputs :: "ActionOutputs \<Rightarrow> event list" where
  "setActionOutputs outputs =
     [SetOutput ''time'' (time outputs),
      SetOutput ''result'' (result outputs),
      SetOutput ''processed'' (boolToString (processed outputs)),
      CoreInfo (''Action completed successfully with result: '' @ result outputs)]"

text \<open>\<open>run\<close>: the \<open>try\<close> block, the \<open>catch\<close> block, and the two together.\<close>

definition run_try :: "env \<Rightarrow> event list \<times> (thrown + unit)" where
  "run_try e =
     (let log0 = [CoreInfo ''Starting TypeScript Action...'']
      in case getActionInputs e of
           (log1, Inl error) \<Rightarrow> (log0 @ log1, Inl error)
         | (log1, Inr inputs) \<Rightarrow>
             (case processWithGitHubAPI e inputs of
                (log2, Inl error) \<Rightarrow> (log0 @ log1 @ log2, Inl error)
              | (log2, Inr outputs) \<Rightarrow>
                  (log0 @ log1 @ log2 @ setActionOutputs outputs
                     @ [CoreInfo ''TypeScript Action completed successfully!''],
                   Inr ())))"

text \<open>\<open>if (error.stack)\<close>: the stack is logged when it is a non-empty string.\<close>

fun run_catch :: "thrown \<Rightarrow> event list" where
  "run_catch (ErrorObj message stack) =
     [CoreError (''Action failed: '' @ message)]
     @ (case stack of
          None \<Rightarrow> []
        | Some s \<Rightarrow> if s = [] then [] else [CoreDebug (''Stack trace: '' @ s)])
     @ [SetFailed message]"
| "run_catch (NonError v) =
     [CoreError ''An unexpected error occurred'',
      SetFailed ''An unexpected error occurred'']"

definition run :: "env \<Rightarrow> event list" where
  "run e =
     (case run_try e of
        (log, Inl error) \<Rightarrow> log @ run_catch error
      | (log, Inr _) \<Rightarrow> log)"

subsection \<open>Reading a trace\<close>

text \<open>The outputs set, as name and value in order, and the messages given to \<open>setFailed\<close>.\<close>

fun outputsSet :: "event list \<Rightarrow> (string \<times> string) list" where
  "outputsSet [] = []"
| "outputsSet (SetOutput k v # evs) = (k, v) # outputsSet evs"
| "outputsSet (_ # evs) = outputsSet evs"

fun failures :: "event list \<Rightarrow> string list" where
  "failures [] = []"
| "failures (SetFailed m # evs) = m # failures evs"
| "failures (_ # evs) = failures evs"

fun warnings :: "event list \<Rightarrow> string list" where
  "warnings [] = []"
| "warnings (CoreWarning m # evs) = m # warnings evs"
| "warnings (_ # evs) = warnings evs"

fun errorsLogged :: "event list \<Rightarrow> string list" where
  "errorsLogged [] = []"
| "errorsLogged (CoreError m # evs) = m # errorsLogged evs"
| "errorsLogged (_ # evs) = errorsLogged evs"

fun waitCalls :: "event list \<Rightarrow> number list" where
  "waitCalls [] = []"
| "waitCalls (WaitCall n # evs) = n # waitCalls evs"
| "waitCalls (_ # evs) = waitCalls evs"

text \<open>The outputs other than \<open>time\<close>.\<close>

definition resultAndProcessed :: "event list \<Rightarrow> (string \<times> string) list" where
  "resultAndProcessed evs = filter (\<lambda>kv. fst kv \<noteq> ''time'') (outputsSet evs)"

subsection \<open>The environments of the test suite\<close>

text \<open>
  \<open>__tests__/main.test.ts\<close> runs the action against mocks: inputs given by a switch on
  the input's name, a client whose request resolves with \<open>owner/repo\<close>, a delay that
  resolves at once. \<open>printNumber\<close> prints a Number as JavaScript does for NaN, the
  infinities and the integers of magnitude below \<open>2^53\<close>; for larger values JavaScript
  prints the shortest digits that read back as the same double, or an exponent form, and
  \<open>printNumber\<close> does not. It only fills the progress line of the mock environments.
\<close>

fun decimal :: "nat \<Rightarrow> string" where
  "decimal n =
     (if n < 10 then [''0123456789'' ! n]
      else decimal (n div 10) @ [''0123456789'' ! (n mod 10)])"

declare decimal.simps [simp del]

fun printNumber :: "number \<Rightarrow> string" where
  "printNumber NaN = ''NaN''"
| "printNumber (Num i) = (if i < 0 then CHR ''-'' # decimal (nat (- i)) else decimal (nat i))"
| "printNumber PosInf = ''Infinity''"
| "printNumber NegInf = ''-Infinity''"

definition mockInputs :: "string \<Rightarrow> string \<Rightarrow> string \<Rightarrow> string \<Rightarrow> string" where
  "mockInputs tokenValue millisecondsValue exampleValue inputName =
     (if inputName = ''token'' then tokenValue
      else if inputName = ''milliseconds'' then millisecondsValue
      else if inputName = ''example-input'' then exampleValue
      else [])"

definition mockGetResolves :: octokit where
  "mockGetResolves ownerName repoName =
     Inr \<lparr>full_name = ''owner/repo'', name = ''repo'', owner_login = ''owner''\<rparr>"

definition mockGetRejects :: "thrown \<Rightarrow> octokit" where
  "mockGetRejects error ownerName repoName = Inl error"

definition mockEnv :: "(string \<Rightarrow> string) \<Rightarrow> octokit \<Rightarrow> env" where
  "mockEnv inputFn client =
     \<lparr>getInput = inputFn,
      getOctokit = (\<lambda>tokenValue. Inr client),
      contextOwner = ''owner'',
      contextRepo = ''repo'',
      wait = (\<lambda>ms. None),
      toTimeString = ''12:34:56 GMT+0000 (Coordinated Universal Time)'',
      numberToString = printNumber,
      errorStack = (\<lambda>message. Some (''Error: '' @ message))\<rparr>"

text \<open>The default environment of the tests, and the one where the delay rejects.\<close>

abbreviation defaultEnv :: env where
  "defaultEnv \<equiv> mockEnv (mockInputs ''mock-github-token'' ''500'' ''test-input'') mockGetResolves"

abbreviation delayFailsEnv :: env where
  "delayFailsEnv \<equiv> defaultEnv\<lparr>wait := (\<lambda>ms. Some (ErrorObj ''timer failed'' None))\<rparr>"

text \<open>A delay of \<open>10^309\<close> milliseconds, written out: beyond the range of a double.\<close>

definition hugeDelay :: string where
  "hugeDelay = CHR ''1'' # replicate 309 (CHR ''0'')"

section \<open>Supporting lemmas\<close>

subsection \<open>Traces, strings and the stages of a run\<close>

lemma outputsSet_append: "outputsSet (xs @ ys) = outputsSet xs @ outputsSet ys"
  by (induction xs rule: outputsSet.induct) simp_all

lemma failures_append: "failures (xs @ ys) = failures xs @ failures ys"
  by (induction xs rule: failures.induct) simp_all

lemma warnings_append: "warnings (xs @ ys) = warnings xs @ warnings ys"
  by (induction xs rule: warnings.induct) simp_all

lemma errorsLogged_append: "errorsLogged (xs @ ys) = errorsLogged xs @ errorsLogged ys"
  by (induction xs rule: errorsLogged.induct) simp_all

lemma waitCalls_append: "waitCalls (xs @ ys) = waitCalls xs @ waitCalls ys"
  by (induction xs rule: waitCalls.induct) simp_all

lemma startsWith_iff: "startsWith s sub \<longleftrightarrow> (\<exists>q. s = sub @ q)"
  by (induction s sub rule: startsWith.induct) auto

lemma stringIncludes_iff: "stringIncludes s sub \<longleftrightarrow> (\<exists>p q. s = p @ sub @ q)"
proof (induction s)
  case Nil
  then show ?case by auto
next
  case (Cons x xs)
  show ?case
  proof
    assume "stringIncludes (x # xs) sub"
    then consider "startsWith (x # xs) sub" | "stringIncludes xs sub" by auto
    then show "\<exists>p q. x # xs = p @ sub @ q"
    proof cases
      case 1
      then obtain q where "x # xs = sub @ q" by (auto simp: startsWith_iff)
      then have "x # xs = [] @ sub @ q" by simp
      then show ?thesis by blast
    next
      case 2
      then obtain p q where "xs = p @ sub @ q" using Cons.IH by auto
      then have "x # xs = (x # p) @ sub @ q" by simp
      then show ?thesis by blast
    qed
  next
    assume "\<exists>p q. x # xs = p @ sub @ q"
    then obtain p q where pq: "x # xs = p @ sub @ q" by blast
    show "stringIncludes (x # xs) sub"
    proof (cases p)
      case Nil
      with pq have "startsWith (x # xs) sub" by (auto simp: startsWith_iff)
      then show ?thesis by simp
    next
      case (Cons y ps)
      with pq have "xs = ps @ sub @ q" by simp
      then have "stringIncludes xs sub" using Cons.IH by blast
      then show ?thesis by simp
    qed
  qed
qed

lemma trimString_blank:
  assumes "\<forall>c\<in>set raw. isWhiteSpace c"
  shows "trimString raw = []"
proof -
  from assms have d: "dropWhile isWhiteSpace raw = []" by (induction raw) simp_all
  show ?thesis unfolding trimString_def d by simp
qed

lemma parseInt10_default: "parseInt10 ''1000'' = Num 1000"
  by (simp add: parseInt10_def isWhiteSpace_def isDigit_def digitsValue_def digitVal_def
      toNumber_def roundToDouble_def)

lemma getActionInputs_token_empty:
  "getInput e ''token'' = [] \<Longrightarrow>
   getActionInputs e = ([], Inl (newError e ''Input required and not supplied: token''))"
  by (simp add: getActionInputs_def Let_def)

lemma getActionInputs_ms_invalid:
  assumes "getInput e ''token'' \<noteq> []"
    and "isNaN (parseInt10 (orElse (getInput e ''milliseconds'') ''1000''))
         \<or> ltZero (parseInt10 (orElse (getInput e ''milliseconds'') ''1000''))"
  shows "getActionInputs e =
     ([], Inl (newError e (''Invalid milliseconds value: ''
                            @ orElse (getInput e ''milliseconds'') ''1000''
                            @ ''. Must be a non-negative number.'')))"
  using assms by (simp add: getActionInputs_def Let_def)

lemma getActionInputs_ok:
  assumes "getInput e ''token'' \<noteq> []"
    and "\<not> isNaN (parseInt10 (orElse (getInput e ''milliseconds'') ''1000''))"
    and "\<not> ltZero (parseInt10 (orElse (getInput e ''milliseconds'') ''1000''))"
  shows "getActionInputs e =
     ([CoreInfo (''Validated inputs: milliseconds=''
                 @ orElse (getInput e ''milliseconds'') ''1000''
                 @ '', example-input='' @ orElse (getInput e ''example-input'') ''default'')],
      Inr \<lparr>token = getInput e ''token'',
           milliseconds = orElse (getInput e ''milliseconds'') ''1000'',
           exampleInput = orElse (getInput e ''example-input'') ''default''\<rparr>)"
  using assms by (simp add: getActionInputs_def Let_def)

lemma getActionInputs_Inr:
  assumes "snd (getActionInputs e) = Inr inputs"
  shows "getInput e ''token'' \<noteq> []"
    and "\<not> isNaN (parseInt10 (milliseconds inputs))"
    and "\<not> ltZero (parseInt10 (milliseconds inputs))"
    and "inputs = \<lparr>token = getInput e ''token'',
           milliseconds = orElse (getInput e ''milliseconds'') ''1000'',
           exampleInput = orElse (getInput e ''example-input'') ''default''\<rparr>"
    and "fst (getActionInputs e) =
      [CoreInfo (''Validated inputs: milliseconds='' @ milliseconds inputs
                 @ '', example-input='' @ exampleInput inputs)]"
  using assms by (auto simp: getActionInputs_def Let_def split: if_splits)


lemma run_catch_outputs: "outputsSet (run_catch t) = []"
  by (cases t) (auto simp: outputsSet_append split: option.splits)

lemma run_catch_failures_Error: "failures (run_catch (ErrorObj m s)) = [m]"
  by (auto simp: failures_append split: option.splits)

lemma run_catch_failures_NonError:
  "failures (run_catch (NonError v)) = [''An unexpected error occurred'']"
  by simp

lemma run_catch_failures_length: "length (failures (run_catch t)) = 1"
  by (cases t) (auto simp: failures_append split: option.splits)

lemma catch_log_quiet:
  "outputsSet (fst (processWithGitHubAPI_catch e t)) = []"
  "failures (fst (processWithGitHubAPI_catch e t)) = []"
  "waitCalls (fst (processWithGitHubAPI_catch e t)) = []"
  by (cases t; simp)+

lemma processWithGitHubAPI_getOctokit_throws:
  "getOctokit e (token inputs) = Inl err \<Longrightarrow> processWithGitHubAPI e inputs = ([], Inl err)"
  by (simp add: processWithGitHubAPI_def)

lemma processWithGitHubAPI_fetch_rejects:
  assumes "getOctokit e (token inputs) = Inr octokit"
    and "octokit (contextOwner e) (contextRepo e) = Inl err"
  shows "processWithGitHubAPI e inputs =
     ([CoreInfo ''Starting GitHub API processing...'',
       ReposGetCall (contextOwner e) (contextRepo e)]
      @ fst (processWithGitHubAPI_catch e err),
      Inl (snd (processWithGitHubAPI_catch e err)))"
  using assms by (simp add: processWithGitHubAPI_def processWithGitHubAPI_try_def)

lemma processWithGitHubAPI_wait_rejects:
  assumes "getOctokit e (token inputs) = Inr octokit"
    and "octokit (contextOwner e) (contextRepo e) = Inr repo"
    and "wait e (parseInt10 (milliseconds inputs)) = Some err"
  shows "processWithGitHubAPI e inputs =
     ([CoreInfo ''Starting GitHub API processing...'',
       ReposGetCall (contextOwner e) (contextRepo e),
       CoreInfo (''Processing repository: '' @ full_name repo),
       CoreInfo (''Processing for '' @ numberToString e (parseInt10 (milliseconds inputs))
                 @ '' milliseconds...''),
       WaitCall (parseInt10 (milliseconds inputs))]
      @ fst (processWithGitHubAPI_catch e err),
      Inl (snd (processWithGitHubAPI_catch e err)))"
  using assms by (simp add: processWithGitHubAPI_def processWithGitHubAPI_try_def Let_def)

lemma processWithGitHubAPI_resolves:
  assumes "getOctokit e (token inputs) = Inr octokit"
    and "octokit (contextOwner e) (contextRepo e) = Inr repo"
    and "wait e (parseInt10 (milliseconds inputs)) = None"
  shows "processWithGitHubAPI e inputs =
     ([CoreInfo ''Starting GitHub API processing...'',
       ReposGetCall (contextOwner e) (contextRepo e),
       CoreInfo (''Processing repository: '' @ full_name repo),
       CoreInfo (''Processing for '' @ numberToString e (parseInt10 (milliseconds inputs))
                 @ '' milliseconds...''),
       WaitCall (parseInt10 (milliseconds inputs))],
      Inr \<lparr>time = toTimeString e,
           result = ''Processed '' @ exampleInput inputs @ '' for '' @ full_name repo,
           processed = True\<rparr>)"
  using assms by (simp add: processWithGitHubAPI_def processWithGitHubAPI_try_def Let_def)

text \<open>The stages of a run: which one ends it.\<close>

lemma processWithGitHubAPI_cases:
  obtains (client_throws) err where "getOctokit e (token inputs) = Inl err"
  | (fetch_rejects) octokit err where "getOctokit e (token inputs) = Inr octokit"
      "octokit (contextOwner e) (contextRepo e) = Inl err"
  | (delay_rejects) octokit repo err where "getOctokit e (token inputs) = Inr octokit"
      "octokit (contextOwner e) (contextRepo e) = Inr repo"
      "wait e (parseInt10 (milliseconds inputs)) = Some err"
  | (resolved) octokit repo where "getOctokit e (token inputs) = Inr octokit"
      "octokit (contextOwner e) (contextRepo e) = Inr repo"
      "wait e (parseInt10 (milliseconds inputs)) = None"
proof (cases "getOctokit e (token inputs)")
  case (Inl err)
  then show ?thesis by (rule client_throws)
next
  case (Inr octokit)
  note oc = this
  show ?thesis
  proof (cases "octokit (contextOwner e) (contextRepo e)")
    case (Inl err)
    with oc show ?thesis by (rule fetch_rejects)
  next
    case (Inr repo)
    note rp = this
    show ?thesis
    proof (cases "wait e (parseInt10 (milliseconds inputs))")
      case None
      with oc rp show ?thesis by (rule resolved)
    next
      case (Some err)
      with oc rp show ?thesis by (rule delay_rejects)
    qed
  qed
qed

lemma processWithGitHubAPI_log_quiet:
  "outputsSet (fst (processWithGitHubAPI e inputs)) = []"
  "failures (fst (processWithGitHubAPI e inputs)) = []"
proof -
  show "outputsSet (fst (processWithGitHubAPI e inputs)) = []"
    by (cases e inputs rule: processWithGitHubAPI_cases)
       (simp_all add: processWithGitHubAPI_getOctokit_throws processWithGitHubAPI_fetch_rejects
          processWithGitHubAPI_wait_rejects processWithGitHubAPI_resolves
          outputsSet_append catch_log_quiet)
  show "failures (fst (processWithGitHubAPI e inputs)) = []"
    by (cases e inputs rule: processWithGitHubAPI_cases)
       (simp_all add: processWithGitHubAPI_getOctokit_throws processWithGitHubAPI_fetch_rejects
          processWithGitHubAPI_wait_rejects processWithGitHubAPI_resolves
          failures_append catch_log_quiet)
qed

lemma getActionInputs_log_quiet:
  "outputsSet (fst (getActionInputs e)) = []"
  "failures (fst (getActionInputs e)) = []"
  "waitCalls (fst (getActionInputs e)) = []"
  by (simp_all add: getActionInputs_def Let_def)

lemma setActionOutputs_trace:
  "outputsSet (setActionOutputs outputs) =
     [(''time'', time outputs), (''result'', result outputs),
      (''processed'', boolToString (processed outputs))]"
  "failures (setActionOutputs outputs) = []"
  "waitCalls (setActionOutputs outputs) = []"
  by (simp_all add: setActionOutputs_def)

lemma errorsLogged_stage_logs:
  "errorsLogged (fst (getActionInputs e)) = []"
  "errorsLogged (fst (processWithGitHubAPI e inputs)) = []"
  "errorsLogged (setActionOutputs outputs) = []"
proof -
  show "errorsLogged (fst (getActionInputs e)) = []"
    by (simp add: getActionInputs_def Let_def)
  have c: "errorsLogged (fst (processWithGitHubAPI_catch e t)) = []" for t
    by (cases t) simp_all
  show "errorsLogged (fst (processWithGitHubAPI e inputs)) = []"
    by (cases e inputs rule: processWithGitHubAPI_cases)
       (simp_all add: processWithGitHubAPI_getOctokit_throws processWithGitHubAPI_fetch_rejects
          processWithGitHubAPI_wait_rejects processWithGitHubAPI_resolves
          errorsLogged_append c)
  show "errorsLogged (setActionOutputs outputs) = []"
    by (simp add: setActionOutputs_def)
qed

lemma run_inputs_throw:
  assumes "snd (getActionInputs e) = Inl err"
  shows "run_try e = (CoreInfo ''Starting TypeScript Action...'' # fst (getActionInputs e), Inl err)"
    and "run e = CoreInfo ''Starting TypeScript Action...'' # fst (getActionInputs e) @ run_catch err"
  using assms by (cases "getActionInputs e"; simp add: run_def run_try_def)+

lemma run_process_throws:
  assumes "snd (getActionInputs e) = Inr inputs"
    and "snd (processWithGitHubAPI e inputs) = Inl err"
  shows "run_try e = (CoreInfo ''Starting TypeScript Action...'' # fst (getActionInputs e)
                        @ fst (processWithGitHubAPI e inputs), Inl err)"
    and "run e = CoreInfo ''Starting TypeScript Action...'' # fst (getActionInputs e)
                   @ fst (processWithGitHubAPI e inputs) @ run_catch err"
  using assms
  by (cases "getActionInputs e"; cases "processWithGitHubAPI e inputs"; simp add: run_def run_try_def)+

lemma run_completes:
  assumes "snd (getActionInputs e) = Inr inputs"
    and "snd (processWithGitHubAPI e inputs) = Inr outputs"
  shows "run_try e = (CoreInfo ''Starting TypeScript Action...'' # fst (getActionInputs e)
                        @ fst (processWithGitHubAPI e inputs) @ setActionOutputs outputs
                        @ [CoreInfo ''TypeScript Action completed successfully!''], Inr ())"
    and "run e = CoreInfo ''Starting TypeScript Action...'' # fst (getActionInputs e)
                   @ fst (processWithGitHubAPI e inputs) @ setActionOutputs outputs
                   @ [CoreInfo ''TypeScript Action completed successfully!'']"
  using assms
  by (cases "getActionInputs e"; cases "processWithGitHubAPI e inputs"; simp add: run_def run_try_def)+

text \<open>What a failed run and a completed run leave in the trace.\<close>

lemma run_failed_trace:
  assumes "snd (run_try e) = Inl err"
  shows "outputsSet (run e) = []"
    and "failures (run e) = failures (run_catch err)"
    and "errorsLogged (run e) = errorsLogged (run_catch err)"
proof -
  have "outputsSet (run e) = [] \<and> failures (run e) = failures (run_catch err)
        \<and> errorsLogged (run e) = errorsLogged (run_catch err)"
  proof (cases "snd (getActionInputs e)")
    case (Inl err')
    with assms run_inputs_throw(1)[OF Inl] have "err' = err" by simp
    with Inl show ?thesis
      by (simp add: run_inputs_throw(2) outputsSet_append failures_append errorsLogged_append
          getActionInputs_log_quiet errorsLogged_stage_logs run_catch_outputs)
  next
    case (Inr inputs)
    show ?thesis
    proof (cases "snd (processWithGitHubAPI e inputs)")
      case (Inl err')
      with assms run_process_throws(1)[OF Inr Inl] have "err' = err" by simp
      with Inl Inr show ?thesis
        by (simp add: run_process_throws(2) outputsSet_append failures_append errorsLogged_append
            getActionInputs_log_quiet processWithGitHubAPI_log_quiet errorsLogged_stage_logs
            run_catch_outputs)
    next
      case (Inr outputs)
      with assms run_completes(1)[OF \<open>snd (getActionInputs e) = Inr inputs\<close> Inr]
      show ?thesis by simp
    qed
  qed
  then show "outputsSet (run e) = []" "failures (run e) = failures (run_catch err)"
    "errorsLogged (run e) = errorsLogged (run_catch err)" by simp_all
qed

lemma run_completed_trace:
  assumes "snd (getActionInputs e) = Inr inputs"
    and "snd (processWithGitHubAPI e inputs) = Inr outputs"
  shows "outputsSet (run e) = [(''time'', time outputs), (''result'', result outputs),
                               (''processed'', boolToString (processed outputs))]"
    and "failures (run e) = []"
  using assms
  by (simp_all add: run_completes(2) outputsSet_append failures_append
      getActionInputs_log_quiet processWithGitHubAPI_log_quiet setActionOutputs_trace)

lemma processWithGitHubAPI_Inr_iff:
  "(\<exists>outputs. snd (processWithGitHubAPI e inputs) = Inr outputs) \<longleftrightarrow>
   (\<exists>octokit repo. getOctokit e (token inputs) = Inr octokit
      \<and> octokit (contextOwner e) (contextRepo e) = Inr repo
      \<and> wait e (parseInt10 (milliseconds inputs)) = None)"
  by (cases e inputs rule: processWithGitHubAPI_cases)
     (auto simp: processWithGitHubAPI_getOctokit_throws processWithGitHubAPI_fetch_rejects
        processWithGitHubAPI_wait_rejects processWithGitHubAPI_resolves)

lemma run_try_Inr_iff:
  "snd (run_try e) = Inr () \<longleftrightarrow>
   (\<exists>inputs outputs. snd (getActionInputs e) = Inr inputs
      \<and> snd (processWithGitHubAPI e inputs) = Inr outputs)"
proof (cases "snd (getActionInputs e)")
  case (Inl err)
  then show ?thesis by (simp add: run_inputs_throw(1))
next
  case (Inr inputs)
  then show ?thesis
    by (cases "snd (processWithGitHubAPI e inputs)")
       (simp_all add: run_process_throws(1) run_completes(1))
qed

lemma warnings_stage_logs:
  "warnings (fst (getActionInputs e)) = []"
  "warnings (run_catch t) = []"
  "warnings (setActionOutputs outputs) = []"
proof -
  show "warnings (fst (getActionInputs e)) = []"
    by (simp add: getActionInputs_def Let_def)
  show "warnings (run_catch t) = []"
    by (cases t) (auto simp: warnings_append split: option.splits)
  show "warnings (setActionOutputs outputs) = []"
    by (simp add: setActionOutputs_def)
qed

lemma run_token_empty:
  assumes "getInput e ''token'' = []"
  shows "run e = CoreInfo ''Starting TypeScript Action...''
                 # run_catch (newError e ''Input required and not supplied: token'')"
  using run_inputs_throw(2)[of e "newError e ''Input required and not supplied: token''"]
  by (simp add: getActionInputs_token_empty[OF assms])

lemma orElse_invalid_is_raw:
  assumes "isNaN (parseInt10 (orElse raw ''1000'')) \<or> ltZero (parseInt10 (orElse raw ''1000''))"
  shows "orElse raw ''1000'' = raw"
proof (cases "raw = []")
  case True
  with assms show ?thesis by (simp add: orElse_def parseInt10_default isNaN_def)
next
  case False
  then show ?thesis by (simp add: orElse_def)
qed

lemma run_resolves:
  assumes i: "snd (getActionInputs e) = Inr inputs"
    and o: "getOctokit e (token inputs) = Inr octokit"
    and g: "octokit (contextOwner e) (contextRepo e) = Inr repo"
    and w: "wait e (parseInt10 (milliseconds inputs)) = None"
  shows "outputsSet (run e) =
           [(''time'', toTimeString e),
            (''result'', ''Processed '' @ exampleInput inputs @ '' for '' @ full_name repo),
            (''processed'', ''true'')]"
    and "failures (run e) = []"
proof -
  have p: "snd (processWithGitHubAPI e inputs) =
             Inr \<lparr>time = toTimeString e,
                  result = ''Processed '' @ exampleInput inputs @ '' for '' @ full_name repo,
                  processed = True\<rparr>"
    by (simp add: processWithGitHubAPI_resolves[OF o g w])
  show "outputsSet (run e) =
           [(''time'', toTimeString e),
            (''result'', ''Processed '' @ exampleInput inputs @ '' for '' @ full_name repo),
            (''processed'', ''true'')]"
    using run_completed_trace(1)[OF i p] by (simp add: boolToString_def)
  show "failures (run e) = []"
    by (rule run_completed_trace(2)[OF i p])
qed

lemma run_failures_empty_iff: "failures (run e) = [] \<longleftrightarrow> snd (run_try e) = Inr ()"
proof
  assume f: "failures (run e) = []"
  show "snd (run_try e) = Inr ()"
  proof (cases "snd (run_try e)")
    case (Inl err)
    have "length (failures (run e)) = 1"
      by (simp add: run_failed_trace(2)[OF Inl] run_catch_failures_length)
    with f show ?thesis by simp
  next
    case (Inr u)
    then show ?thesis by simp
  qed
next
  assume "snd (run_try e) = Inr ()"
  then obtain inputs outputs where "snd (getActionInputs e) = Inr inputs"
    "snd (processWithGitHubAPI e inputs) = Inr outputs"
    unfolding run_try_Inr_iff by blast
  then show "failures (run e) = []" by (rule run_completed_trace(2))
qed

lemma getActionInputs_depends_on_inputs:
  assumes "getInput e1 = getInput e2"
    and "snd (getActionInputs e1) = Inr inputs"
  shows "snd (getActionInputs e2) = Inr inputs"
proof -
  note f = getActionInputs_Inr[OF assms(2)]
  have m: "milliseconds inputs = orElse (getInput e2 ''milliseconds'') ''1000''"
    using f(4) assms(1) by simp
  have "getActionInputs e2 =
     ([CoreInfo (''Validated inputs: milliseconds=''
                 @ orElse (getInput e2 ''milliseconds'') ''1000''
                 @ '', example-input='' @ orElse (getInput e2 ''example-input'') ''default'')],
      Inr \<lparr>token = getInput e2 ''token'',
           milliseconds = orElse (getInput e2 ''milliseconds'') ''1000'',
           exampleInput = orElse (getInput e2 ''example-input'') ''default''\<rparr>)"
    using f(1,2,3) assms(1) m by (intro getActionInputs_ok) simp_all
  then show ?thesis using f(4) assms(1) by simp
qed

lemma run_succeeds_obtain:
  assumes "failures (run e) = []"
  obtains inputs octokit repo where
    "snd (getActionInputs e) = Inr inputs"
    "getOctokit e (token inputs) = Inr octokit"
    "octokit (contextOwner e) (contextRepo e) = Inr repo"
    "wait e (parseInt10 (milliseconds inputs)) = None"
proof -
  from assms have "snd (run_try e) = Inr ()" by (simp add: run_failures_empty_iff)
  then obtain inputs outputs where i: "snd (getActionInputs e) = Inr inputs"
    and p: "snd (processWithGitHubAPI e inputs) = Inr outputs"
    unfolding run_try_Inr_iff by blast
  from p have "\<exists>outputs. snd (processWithGitHubAPI e inputs) = Inr outputs" by blast
  then obtain octokit repo where "getOctokit e (token inputs) = Inr octokit"
    "octokit (contextOwner e) (contextRepo e) = Inr repo"
    "wait e (parseInt10 (milliseconds inputs)) = None"
    unfolding processWithGitHubAPI_Inr_iff by blast
  with i that show thesis by blast
qed

lemma run_fails_outputs:
  assumes "failures (run e) \<noteq> []"
  shows "outputsSet (run e) = []"
proof (cases "snd (run_try e)")
  case (Inl err)
  then show ?thesis by (rule run_failed_trace(1))
next
  case (Inr u)
  then have "snd (run_try e) = Inr ()" by simp
  with assms show ?thesis by (simp add: run_failures_empty_iff)
qed

lemma both_succeed_same_outputs:
  assumes same: "getInput e1 = getInput e2" "getOctokit e1 = getOctokit e2"
      "contextOwner e1 = contextOwner e2" "contextRepo e1 = contextRepo e2"
    and ok1: "failures (run e1) = []" and ok2: "failures (run e2) = []"
  shows "resultAndProcessed (run e1) = resultAndProcessed (run e2)"
proof -
  from ok1 obtain inputs octokit repo where
    i1: "snd (getActionInputs e1) = Inr inputs"
    and o1: "getOctokit e1 (token inputs) = Inr octokit"
    and g1: "octokit (contextOwner e1) (contextRepo e1) = Inr repo"
    and w1: "wait e1 (parseInt10 (milliseconds inputs)) = None"
    by (rule run_succeeds_obtain)
  have i2: "snd (getActionInputs e2) = Inr inputs"
    by (rule getActionInputs_depends_on_inputs[OF same(1) i1])
  have o2: "getOctokit e2 (token inputs) = Inr octokit" using o1 same(2) by simp
  have g2: "octokit (contextOwner e2) (contextRepo e2) = Inr repo" using g1 same(3,4) by simp
  have w2: "wait e2 (parseInt10 (milliseconds inputs)) = None"
  proof -
    from ok2 obtain inputs' octokit' repo' where
      "snd (getActionInputs e2) = Inr inputs'"
      "wait e2 (parseInt10 (milliseconds inputs')) = None"
      by (rule run_succeeds_obtain)
    with i2 show ?thesis by simp
  qed
  show ?thesis
    unfolding resultAndProcessed_def
    by (simp add: run_resolves(1)[OF i1 o1 g1 w1] run_resolves(1)[OF i2 o2 g2 w2])
qed

lemma success_transfers:
  assumes same: "getInput e1 = getInput e2" "getOctokit e1 = getOctokit e2"
      "contextOwner e1 = contextOwner e2" "contextRepo e1 = contextRepo e2"
    and w: "\<forall>n. wait e1 n = None \<longleftrightarrow> wait e2 n = None"
    and ok1: "failures (run e1) = []"
  shows "failures (run e2) = []"
proof -
  from ok1 obtain inputs octokit repo where
    i1: "snd (getActionInputs e1) = Inr inputs"
    and o1: "getOctokit e1 (token inputs) = Inr octokit"
    and g1: "octokit (contextOwner e1) (contextRepo e1) = Inr repo"
    and w1: "wait e1 (parseInt10 (milliseconds inputs)) = None"
    by (rule run_succeeds_obtain)
  have i2: "snd (getActionInputs e2) = Inr inputs"
    by (rule getActionInputs_depends_on_inputs[OF same(1) i1])
  have o2: "getOctokit e2 (token inputs) = Inr octokit" using o1 same(2) by simp
  have g2: "octokit (contextOwner e2) (contextRepo e2) = Inr repo" using g1 same(3,4) by simp
  have w2: "wait e2 (parseInt10 (milliseconds inputs)) = None" using w1 w by simp
  show ?thesis by (rule run_resolves(2)[OF i2 o2 g2 w2])
qed

lemma waitCalls_run_catch: "waitCalls (run_catch t) = []"
  by (cases t) (auto simp: waitCalls_append split: option.splits)

lemma waitCalls_process:
  "waitCalls (fst (processWithGitHubAPI e inputs)) = []
   \<or> waitCalls (fst (processWithGitHubAPI e inputs)) = [parseInt10 (milliseconds inputs)]"
  by (cases e inputs rule: processWithGitHubAPI_cases)
     (simp_all add: processWithGitHubAPI_getOctokit_throws processWithGitHubAPI_fetch_rejects
        processWithGitHubAPI_wait_rejects processWithGitHubAPI_resolves
        waitCalls_append catch_log_quiet)

lemma waitCalls_run:
  "waitCalls (run e) = []
   \<or> (\<exists>inputs. snd (getActionInputs e) = Inr inputs
         \<and> waitCalls (run e) = [parseInt10 (milliseconds inputs)])"
proof (cases "snd (getActionInputs e)")
  case (Inl err)
  then show ?thesis
    by (simp add: run_inputs_throw(2) waitCalls_append getActionInputs_log_quiet
        waitCalls_run_catch)
next
  case (Inr inputs)
  note i = this
  have w: "waitCalls (run e) = waitCalls (fst (processWithGitHubAPI e inputs))"
  proof (cases "snd (processWithGitHubAPI e inputs)")
    case (Inl err)
    show ?thesis
      by (simp add: run_process_throws(2)[OF i Inl] waitCalls_append getActionInputs_log_quiet
          waitCalls_run_catch)
  next
    case (Inr outputs)
    show ?thesis
      by (simp add: run_completes(2)[OF i Inr] waitCalls_append getActionInputs_log_quiet
          setActionOutputs_trace)
  qed
  from waitCalls_process[of e inputs] show ?thesis
    unfolding w using i by auto
qed

lemma validated_number:
  assumes "\<not> isNaN n" and "\<not> ltZero n"
  shows "(\<exists>k. n = Num k \<and> 0 \<le> k) \<or> n = PosInf"
  using assms by (cases n) (simp_all add: isNaN_def)

subsection \<open>Rounding to a double\<close>

lemma bitLength_upper: "n < 2 ^ bitLength n"
proof (induction n rule: bitLength.induct)
  case (1 n)
  show ?case
  proof (cases "n = 0")
    case True
    then show ?thesis by simp
  next
    case False
    with 1 have "n div 2 < 2 ^ bitLength (n div 2)" by simp
    then have "n < 2 * 2 ^ bitLength (n div 2)" by linarith
    with False show ?thesis by (subst bitLength.simps) simp
  qed
qed

lemma bitLength_lower: "n \<noteq> 0 \<Longrightarrow> 2 ^ (bitLength n - 1) \<le> n"
proof (induction n rule: bitLength.induct)
  case (1 n)
  have bl: "bitLength n = Suc (bitLength (n div 2))"
    using "1.prems" by (subst bitLength.simps) simp
  show ?case
  proof (cases "n div 2 = 0")
    case True
    then have "bitLength (n div 2) = 0" by (simp add: bitLength.simps)
    with bl "1.prems" show ?thesis by simp
  next
    case False
    with 1 have ih: "2 ^ (bitLength (n div 2) - 1) \<le> n div 2" by simp
    from False have "bitLength (n div 2) \<noteq> 0" by (subst bitLength.simps) simp
    then have "(2::nat) ^ bitLength (n div 2) = 2 * 2 ^ (bitLength (n div 2) - 1)"
      by (cases "bitLength (n div 2)") simp_all
    also have "\<dots> \<le> 2 * (n div 2)" using ih by simp
    also have "\<dots> \<le> n" by simp
    finally show ?thesis by (simp add: bl)
  qed
qed

lemma roundToDouble_lower:
  assumes "2 ^ 53 \<le> n"
  shows "2 ^ (bitLength n - 1) \<le> roundToDouble n"
proof -
  define k where "k = bitLength n - 53"
  define q where "q = n div 2 ^ k"
  from assms have n0: "n \<noteq> 0" by auto
  have "(2::nat) ^ 53 < 2 ^ bitLength n"
    using assms bitLength_upper[of n] by linarith
  then have b: "53 < bitLength n" by (rule power_less_imp_less_exp[rotated]) simp
  then have e: "bitLength n - 1 = 52 + k" by (simp add: k_def)
  have "(2::nat) ^ (bitLength n - 1) \<le> n" by (rule bitLength_lower[OF n0])
  then have "2 ^ 52 * 2 ^ k \<le> n" unfolding e power_add .
  then have "2 ^ 52 \<le> q"
    unfolding q_def by (simp add: less_eq_div_iff_mult_less_eq)
  then have "2 ^ 52 * 2 ^ k \<le> (if 2 ^ (k - 1) < n mod 2 ^ k \<or> (n mod 2 ^ k = 2 ^ (k - 1) \<and> odd q)
                                  then q + 1 else q) * 2 ^ k"
    by simp
  moreover have "roundToDouble n =
      (if 2 ^ (k - 1) < n mod 2 ^ k \<or> (n mod 2 ^ k = 2 ^ (k - 1) \<and> odd q) then q + 1 else q) * 2 ^ k"
    using assms by (simp add: roundToDouble_def Let_def k_def q_def)
  ultimately show ?thesis unfolding e power_add by simp
qed

lemma roundToDouble_overflow:
  assumes "2 ^ 1024 \<le> n"
  shows "2 ^ 1024 \<le> roundToDouble n"
proof -
  have "(2::nat) ^ 1024 < 2 ^ bitLength n"
    using assms bitLength_upper[of n] by linarith
  then have "1024 < bitLength n" by (rule power_less_imp_less_exp[rotated]) simp
  then have "(2::nat) ^ 1024 \<le> 2 ^ (bitLength n - 1)"
    by (intro power_increasing) simp_all
  moreover have "(2::nat) ^ 53 \<le> n"
  proof -
    have "(2::nat) ^ 53 \<le> 2 ^ 1024" by (intro power_increasing) simp_all
    with assms show ?thesis by linarith
  qed
  ultimately show ?thesis using roundToDouble_lower[of n] by linarith
qed

subsection \<open>Evaluation in the test environments\<close>

lemma parse500: "parseInt10 ''500'' = Num 500"
  by (simp add: parseInt10_def isWhiteSpace_def isDigit_def digitsValue_def digitVal_def
      toNumber_def roundToDouble_def)

lemma print500: "printNumber (Num 500) = ''500''"
  by (simp add: decimal.simps)

lemma mockEnv_sel:
  "getInput (mockEnv f c) = f"
  "getOctokit (mockEnv f c) t = Inr c"
  "contextOwner (mockEnv f c) = ''owner''"
  "contextRepo (mockEnv f c) = ''repo''"
  "wait (mockEnv f c) n = None"
  "toTimeString (mockEnv f c) = ''12:34:56 GMT+0000 (Coordinated Universal Time)''"
  "numberToString (mockEnv f c) = printNumber"
  "errorStack (mockEnv f c) m = Some (''Error: '' @ m)"
  by (simp_all add: mockEnv_def)

lemma mockInputs_sel:
  "mockInputs t m x ''token'' = t"
  "mockInputs t m x ''milliseconds'' = m"
  "mockInputs t m x ''example-input'' = x"
  by (simp_all add: mockInputs_def)

lemma defaultEnv_inputs:
  "getActionInputs defaultEnv =
     ([CoreInfo ''Validated inputs: milliseconds=500, example-input=test-input''],
      Inr \<lparr>token = ''mock-github-token'', milliseconds = ''500'', exampleInput = ''test-input''\<rparr>)"
  by (simp add: getActionInputs_def mockEnv_sel mockInputs_sel orElse_def
      parse500 isNaN_def Let_def)

lemma delayFailsEnv_inputs:
  "getActionInputs delayFailsEnv =
     ([CoreInfo ''Validated inputs: milliseconds=500, example-input=test-input''],
      Inr \<lparr>token = ''mock-github-token'', milliseconds = ''500'', exampleInput = ''test-input''\<rparr>)"
  by (simp add: getActionInputs_def mockEnv_sel mockInputs_sel
      orElse_def parse500 isNaN_def Let_def)

lemma mockGetResolves_sel:
  "mockGetResolves a b = Inr \<lparr>full_name = ''owner/repo'', name = ''repo'', owner_login = ''owner''\<rparr>"
  by (simp add: mockGetResolves_def)

lemma parse_not_a_number: "parseInt10 ''not-a-number'' = NaN"
  by (simp add: parseInt10_def isWhiteSpace_def isDigit_def)

lemma parse_minus_500: "parseInt10 ''-500'' = Num (- 500)"
  by (simp add: parseInt10_def isWhiteSpace_def isDigit_def digitsValue_def digitVal_def
      toNumber_def roundToDouble_def)

lemma digits_zeros:
  "foldl (\<lambda>acc c. 10 * acc + digitVal c) a (replicate n (CHR ''0'')) = a * 10 ^ n"
  by (induction n arbitrary: a) (simp_all add: digitVal_def)

lemma huge_value: "digitsValue hugeDelay = 10 ^ 309"
  by (simp add: hugeDelay_def digitsValue_def digits_zeros) (simp add: digitVal_def)

lemma huge_digits: "takeWhile isDigit hugeDelay = hugeDelay"
  by (simp add: hugeDelay_def isDigit_def)

lemma parse_hugeDelay: "parseInt10 hugeDelay = PosInf"
proof -
  have "(2::nat) ^ 1024 \<le> 10 ^ 309" by simp
  then have "2 ^ 1024 \<le> roundToDouble (digitsValue hugeDelay)"
    unfolding huge_value by (rule roundToDouble_overflow)
  then have n: "toNumber False (digitsValue hugeDelay) = PosInf"
    by (simp add: toNumber_def Let_def)
  have "parseInt10 (CHR ''1'' # replicate 309 (CHR ''0'')) = PosInf"
    by (simp add: parseInt10_def Let_def isWhiteSpace_def isDigit_def n[unfolded hugeDelay_def])
  then show ?thesis by (simp add: hugeDelay_def)
qed

section \<open>The claims\<close>

text \<open>
  C1. For every run, the three outputs \<open>time\<close>, \<open>result\<close> and \<open>processed\<close> are set
  as a group only on the success path, and on any failure (input validation, fetch,
  delay) no output is set and exactly one failure signal is emitted. The \<open>try\<close> block
  of \<open>run\<close> completes exactly when the inputs are valid, the client is built, the
  request resolves and the delay resolves; then the three outputs are set, in this order,
  and \<open>setFailed\<close> is never called; otherwise no output is set and \<open>setFailed\<close> is
  called exactly once.
\<close>

theorem run_outputs_all_or_none:
  "(snd (run_try e) = Inr () \<longleftrightarrow>
      (\<exists>inputs octokit repo.
          snd (getActionInputs e) = Inr inputs
        \<and> getOctokit e (token inputs) = Inr octokit
        \<and> octokit (contextOwner e) (contextRepo e) = Inr repo
        \<and> wait e (parseInt10 (milliseconds inputs)) = None))
   \<and> (snd (run_try e) = Inr () \<longrightarrow>
        (\<exists>t r. outputsSet (run e) = [(''time'', t), (''result'', r), (''processed'', ''true'')])
        \<and> failures (run e) = [])
   \<and> (snd (run_try e) \<noteq> Inr () \<longrightarrow>
        outputsSet (run e) = [] \<and> (\<exists>m. failures (run e) = [m]))"
proof (intro conjI impI)
  show "snd (run_try e) = Inr () \<longleftrightarrow>
      (\<exists>inputs octokit repo.
          snd (getActionInputs e) = Inr inputs
        \<and> getOctokit e (token inputs) = Inr octokit
        \<and> octokit (contextOwner e) (contextRepo e) = Inr repo
        \<and> wait e (parseInt10 (milliseconds inputs)) = None)"
    unfolding run_try_Inr_iff using processWithGitHubAPI_Inr_iff by blast
next
  assume ok: "snd (run_try e) = Inr ()"
  then obtain inputs outputs where i: "snd (getActionInputs e) = Inr inputs"
    and p: "snd (processWithGitHubAPI e inputs) = Inr outputs"
    unfolding run_try_Inr_iff by blast
  have "processed outputs"
    using p
    by (cases e inputs rule: processWithGitHubAPI_cases)
       (simp_all add: processWithGitHubAPI_getOctokit_throws processWithGitHubAPI_fetch_rejects
          processWithGitHubAPI_wait_rejects processWithGitHubAPI_resolves, auto)
  then show "\<exists>t r. outputsSet (run e) = [(''time'', t), (''result'', r), (''processed'', ''true'')]"
    using run_completed_trace(1)[OF i p] by (simp add: boolToString_def)
  show "failures (run e) = []" by (rule run_completed_trace(2)[OF i p])
next
  assume "snd (run_try e) \<noteq> Inr ()"
  then obtain err where err: "snd (run_try e) = Inl err"
    by (cases "snd (run_try e)") auto
  show "outputsSet (run e) = []" by (rule run_failed_trace(1)[OF err])
  have "length (failures (run e)) = 1"
    by (simp add: run_failed_trace(2)[OF err] run_catch_failures_length)
  then show "\<exists>m. failures (run e) = [m]"
    by (cases "failures (run e)") auto
qed

theorem run_outputs_all_or_none_witness:
  "snd (run_try defaultEnv) = Inr ()
   \<and> (\<exists>t r. outputsSet (run defaultEnv) = [(''time'', t), (''result'', r), (''processed'', ''true'')])
   \<and> failures (run defaultEnv) = []
   \<and> snd (run_try delayFailsEnv) \<noteq> Inr ()
   \<and> outputsSet (run delayFailsEnv) = []
   \<and> (\<exists>m. failures (run delayFailsEnv) = [m])"
proof -
  have ok: "snd (run_try defaultEnv) = Inr ()"
    by (simp add: run_try_def defaultEnv_inputs processWithGitHubAPI_def
        processWithGitHubAPI_try_def mockEnv_sel mockGetResolves_def Let_def)
  have ko: "snd (run_try delayFailsEnv) \<noteq> Inr ()"
    by (simp add: run_try_def delayFailsEnv_inputs processWithGitHubAPI_def
        processWithGitHubAPI_try_def mockEnv_sel
        mockGetResolves_def Let_def)
  from ok ko run_outputs_all_or_none [of defaultEnv] run_outputs_all_or_none [of delayFailsEnv]
  show ?thesis by simp
qed

text \<open>
  C2. When the metadata fetch rejects with an error object, the message text is
  inspected in priority order. If it contains \<open>rate limit\<close>, a warning diagnostic is
  emitted and the run fails with \<open>GitHub API rate limit exceeded. Please try again later.\<close>;
  otherwise, if it contains \<open>Not Found\<close>, the run fails with
  \<open>Repository not found or token lacks necessary permissions.\<close>; otherwise the run fails
  with \<open>GitHub API error: \<close> followed by the original message. A message that contains
  both substrings is classified as a rate limit: the first case asks nothing about
  \<open>Not Found\<close>.
\<close>

theorem fetch_error_classification:
  assumes "snd (getActionInputs e) = Inr inputs"
    and "getOctokit e (token inputs) = Inr octokit"
    and "octokit (contextOwner e) (contextRepo e) = Inl (ErrorObj message stack)"
  shows "(stringIncludes message ''rate limit'' \<longrightarrow>
            warnings (run e) = [''Rate limit encountered. Consider adding retry logic.'']
          \<and> failures (run e) = [''GitHub API rate limit exceeded. Please try again later.''])
       \<and> (\<not> stringIncludes message ''rate limit'' \<and> stringIncludes message ''Not Found'' \<longrightarrow>
            warnings (run e) = []
          \<and> failures (run e) = [''Repository not found or token lacks necessary permissions.''])
       \<and> (\<not> stringIncludes message ''rate limit'' \<and> \<not> stringIncludes message ''Not Found'' \<longrightarrow>
            warnings (run e) = []
          \<and> failures (run e) = [''GitHub API error: '' @ message])"
proof -
  let ?err = "ErrorObj message stack"
  have p: "processWithGitHubAPI e inputs =
     ([CoreInfo ''Starting GitHub API processing...'',
       ReposGetCall (contextOwner e) (contextRepo e)]
      @ fst (processWithGitHubAPI_catch e ?err),
      Inl (snd (processWithGitHubAPI_catch e ?err)))"
    by (rule processWithGitHubAPI_fetch_rejects[OF assms(2,3)])
  then have "snd (processWithGitHubAPI e inputs) = Inl (snd (processWithGitHubAPI_catch e ?err))"
    by simp
  from run_process_throws(2)[OF assms(1) this]
  have r: "run e = CoreInfo ''Starting TypeScript Action...'' # fst (getActionInputs e)
             @ ([CoreInfo ''Starting GitHub API processing...'',
                 ReposGetCall (contextOwner e) (contextRepo e)]
                @ fst (processWithGitHubAPI_catch e ?err))
             @ run_catch (snd (processWithGitHubAPI_catch e ?err))"
    by (simp add: p)
  have w: "warnings (run e) = warnings (fst (processWithGitHubAPI_catch e ?err))"
    by (simp add: r warnings_append warnings_stage_logs)
  have f: "failures (run e) = failures (run_catch (snd (processWithGitHubAPI_catch e ?err)))"
    by (simp add: r failures_append getActionInputs_log_quiet catch_log_quiet)
  show ?thesis
    unfolding w f by (simp add: newError_def run_catch_failures_Error del: run_catch.simps)
qed

theorem fetch_error_classification_witness:
  "failures (run (mockEnv (mockInputs ''mock-github-token'' ''500'' ''test-input'')
       (mockGetRejects (ErrorObj ''Not Found: API rate limit exceeded'' None))))
     = [''GitHub API rate limit exceeded. Please try again later.'']
   \<and> warnings (run (mockEnv (mockInputs ''mock-github-token'' ''500'' ''test-input'')
       (mockGetRejects (ErrorObj ''Not Found: API rate limit exceeded'' None))))
     = [''Rate limit encountered. Consider adding retry logic.'']
   \<and> failures (run (mockEnv (mockInputs ''mock-github-token'' ''500'' ''test-input'')
       (mockGetRejects (ErrorObj ''Not Found'' None))))
     = [''Repository not found or token lacks necessary permissions.'']
   \<and> failures (run (mockEnv (mockInputs ''mock-github-token'' ''500'' ''test-input'')
       (mockGetRejects (ErrorObj ''Bad credentials'' None))))
     = [''GitHub API error: Bad credentials'']"
proof -
  let ?inputs = "\<lparr>token = ''mock-github-token'', milliseconds = ''500'',
                  exampleInput = ''test-input''\<rparr>"
  have i: "snd (getActionInputs (mockEnv (mockInputs ''mock-github-token'' ''500'' ''test-input'') c))
           = Inr ?inputs" for c
    by (simp add: getActionInputs_def mockEnv_sel mockInputs_sel orElse_def parse500 isNaN_def Let_def)
  have o: "getOctokit (mockEnv f (mockGetRejects t)) (token ?inputs) = Inr (mockGetRejects t)" for f t
    by (simp add: mockEnv_sel)
  have g: "mockGetRejects t (contextOwner (mockEnv f c)) (contextRepo (mockEnv f c)) = Inl t" for t f c
    by (simp add: mockGetRejects_def)
  from fetch_error_classification[OF i o g, of "''Not Found: API rate limit exceeded''" None]
       fetch_error_classification[OF i o g, of "''Not Found''" None]
       fetch_error_classification[OF i o g, of "''Bad credentials''" None]
  show ?thesis by simp
qed

text \<open>
  C3. For every token input that is empty or consists only of white space, the run fails
  with the message \<open>Input required and not supplied: token\<close> and no output is set.
  \<open>main.ts\<close> reads the token with \<open>core.getInput('token')\<close> and default options, which
  delivers the raw input trimmed: the second part below is the claim, for a raw token
  \<open>raw\<close> read through such a source. The first part is what the action itself checks:
  the delivered string against the empty string.
\<close>

theorem empty_token_fails:
  "(getInput e ''token'' = [] \<longrightarrow>
      failures (run e) = [''Input required and not supplied: token'']
    \<and> outputsSet (run e) = [])
   \<and> ((\<forall>c\<in>set raw. isWhiteSpace c) \<and> getInput e ''token'' = trimString raw \<longrightarrow>
      failures (run e) = [''Input required and not supplied: token'']
    \<and> outputsSet (run e) = [])"
proof -
  have a: "failures (run e) = [''Input required and not supplied: token'']
         \<and> outputsSet (run e) = []" if "getInput e ''token'' = []"
    by (simp add: run_token_empty[OF that] newError_def run_catch_failures_Error
        run_catch_outputs del: run_catch.simps)
  show ?thesis using a by (simp add: trimString_blank)
qed

theorem empty_token_fails_witness:
  "failures (run (mockEnv (mockInputs '''' ''500'' ''test-input'') mockGetResolves))
       = [''Input required and not supplied: token'']
   \<and> outputsSet (run (mockEnv (mockInputs '''' ''500'' ''test-input'') mockGetResolves)) = []
   \<and> failures (run (mockEnv (\<lambda>inputName. trimString (mockInputs '' '' ''500'' ''test-input'' inputName))
                     mockGetResolves))
       = [''Input required and not supplied: token'']
   \<and> outputsSet (run (mockEnv (\<lambda>inputName. trimString (mockInputs '' '' ''500'' ''test-input'' inputName))
                     mockGetResolves)) = []"
proof -
  let ?e1 = "mockEnv (mockInputs '''' ''500'' ''test-input'') mockGetResolves"
  let ?e2 = "mockEnv (\<lambda>inputName. trimString (mockInputs '' '' ''500'' ''test-input'' inputName))
               mockGetResolves"
  have h1: "getInput ?e1 ''token'' = []"
    by (simp add: mockEnv_sel mockInputs_sel)
  have h2: "(\<forall>c\<in>set '' ''. isWhiteSpace c) \<and> getInput ?e2 ''token'' = trimString '' ''"
    by (simp add: mockEnv_sel mockInputs_sel isWhiteSpace_def)
  from h1 h2 empty_token_fails[of ?e1 "[]"] empty_token_fails[of ?e2 "'' ''"]
  show ?thesis by blast
qed

text \<open>
  C4, amended. For every run whose token is not empty and whose \<open>milliseconds\<close> input,
  after defaulting, fails base-10 integer parsing or parses to a negative value, the run
  fails with \<open>Invalid milliseconds value: {raw}. Must be a non-negative number.\<close> where
  \<open>{raw}\<close> is the input string as read, before defaulting, and no output is set. (The
  message is built from the defaulted string; it is the string read because the default
  \<open>1000\<close> is valid.)
\<close>

theorem invalid_milliseconds_fails:
  assumes "getInput e ''token'' \<noteq> []"
    and "isNaN (parseInt10 (orElse (getInput e ''milliseconds'') ''1000''))
         \<or> ltZero (parseInt10 (orElse (getInput e ''milliseconds'') ''1000''))"
  shows "failures (run e) = [''Invalid milliseconds value: '' @ getInput e ''milliseconds''
                               @ ''. Must be a non-negative number.'']
       \<and> outputsSet (run e) = []"
proof -
  have raw: "orElse (getInput e ''milliseconds'') ''1000'' = getInput e ''milliseconds''"
    by (rule orElse_invalid_is_raw[OF assms(2)])
  have "getActionInputs e =
     ([], Inl (newError e (''Invalid milliseconds value: '' @ getInput e ''milliseconds''
                            @ ''. Must be a non-negative number.'')))"
    using getActionInputs_ms_invalid[OF assms] by (simp add: raw)
  then have "run e = CoreInfo ''Starting TypeScript Action...''
        # run_catch (newError e (''Invalid milliseconds value: '' @ getInput e ''milliseconds''
                                  @ ''. Must be a non-negative number.''))"
    using run_inputs_throw(2)[of e "newError e (''Invalid milliseconds value: ''
        @ getInput e ''milliseconds'' @ ''. Must be a non-negative number.'')"]
    by simp
  then show ?thesis
    by (simp add: newError_def run_catch_failures_Error run_catch_outputs del: run_catch.simps)
qed

theorem invalid_milliseconds_fails_witness:
  "failures (run (mockEnv (mockInputs ''mock-github-token'' ''not-a-number'' ''valid-value'')
                   mockGetResolves))
     = [''Invalid milliseconds value: not-a-number. Must be a non-negative number.'']
   \<and> failures (run (mockEnv (mockInputs ''mock-github-token'' ''-500'' ''valid-value'')
                     mockGetResolves))
     = [''Invalid milliseconds value: -500. Must be a non-negative number.'']
   \<and> outputsSet (run (mockEnv (mockInputs ''mock-github-token'' ''-500'' ''valid-value'')
                     mockGetResolves)) = []"
proof -
  let ?e1 = "mockEnv (mockInputs ''mock-github-token'' ''not-a-number'' ''valid-value'') mockGetResolves"
  let ?e2 = "mockEnv (mockInputs ''mock-github-token'' ''-500'' ''valid-value'') mockGetResolves"
  have t1: "getInput ?e1 ''token'' \<noteq> []" and t2: "getInput ?e2 ''token'' \<noteq> []"
    by (simp_all add: mockEnv_sel mockInputs_sel)
  have m1: "isNaN (parseInt10 (orElse (getInput ?e1 ''milliseconds'') ''1000''))
            \<or> ltZero (parseInt10 (orElse (getInput ?e1 ''milliseconds'') ''1000''))"
    by (simp add: mockEnv_sel mockInputs_sel orElse_def parse_not_a_number isNaN_def)
  have m2: "isNaN (parseInt10 (orElse (getInput ?e2 ''milliseconds'') ''1000''))
            \<or> ltZero (parseInt10 (orElse (getInput ?e2 ''milliseconds'') ''1000''))"
    by (simp add: mockEnv_sel mockInputs_sel orElse_def parse_minus_500 isNaN_def)
  from invalid_milliseconds_fails[OF t1 m1] invalid_milliseconds_fails[OF t2 m2]
  show ?thesis by (simp add: mockEnv_sel mockInputs_sel)
qed

text \<open>
  C4 as stated, for a run whose token is empty: the \<open>milliseconds\<close> input
  \<open>not-a-number\<close> fails parsing, and the failure reported is the one of the token.
\<close>

theorem invalid_milliseconds_token_missing:
  "isNaN (parseInt10 (orElse ''not-a-number'' ''1000''))
   \<and> failures (run (mockEnv (mockInputs '''' ''not-a-number'' ''valid-value'') mockGetResolves))
       = [''Input required and not supplied: token'']"
proof -
  let ?e = "mockEnv (mockInputs '''' ''not-a-number'' ''valid-value'') mockGetResolves"
  have "getInput ?e ''token'' = []"
    by (simp add: mockEnv_sel mockInputs_sel)
  then have "run ?e = CoreInfo ''Starting TypeScript Action...''
                 # run_catch (newError ?e ''Input required and not supplied: token'')"
    by (rule run_token_empty)
  then show ?thesis
    by (simp add: newError_def run_catch_failures_Error orElse_def parse_not_a_number isNaN_def
        del: run_catch.simps)
qed

text \<open>
  C5. For every successful run where the metadata fetch resolves with full name \<open>F\<close> and
  the resolved example input is \<open>E\<close>, the \<open>result\<close> output is
  \<open>Processed E for F\<close> and the \<open>processed\<close> output is the string \<open>true\<close>. A run is
  successful when \<open>setFailed\<close> is not called; the resolved example input is the
  \<open>example-input\<close> read, or \<open>default\<close> when that is empty.
\<close>

theorem result_and_processed_outputs:
  assumes i: "snd (getActionInputs e) = Inr inputs"
    and o: "getOctokit e (token inputs) = Inr octokit"
    and g: "octokit (contextOwner e) (contextRepo e) = Inr repo"
    and ok: "failures (run e) = []"
  shows "outputsSet (run e) =
           [(''time'', toTimeString e),
            (''result'', ''Processed '' @ exampleInput inputs @ '' for '' @ full_name repo),
            (''processed'', ''true'')]
       \<and> exampleInput inputs = orElse (getInput e ''example-input'') ''default''"
proof -
  from ok have "snd (run_try e) = Inr ()" by (simp add: run_failures_empty_iff)
  then obtain inputs' outputs where i': "snd (getActionInputs e) = Inr inputs'"
    and p: "snd (processWithGitHubAPI e inputs') = Inr outputs"
    unfolding run_try_Inr_iff by blast
  from i i' have "inputs' = inputs" by simp
  with p have "\<exists>outputs. snd (processWithGitHubAPI e inputs) = Inr outputs" by blast
  then have w: "wait e (parseInt10 (milliseconds inputs)) = None"
    unfolding processWithGitHubAPI_Inr_iff using o g by auto
  have "exampleInput inputs = orElse (getInput e ''example-input'') ''default''"
    using getActionInputs_Inr(4)[OF i] by simp
  with run_resolves(1)[OF i o g w] show ?thesis by simp
qed

theorem result_and_processed_outputs_witness:
  "failures (run defaultEnv) = []
   \<and> outputsSet (run defaultEnv) =
       [(''time'', ''12:34:56 GMT+0000 (Coordinated Universal Time)''),
        (''result'', ''Processed test-input for owner/repo''),
        (''processed'', ''true'')]"
proof -
  let ?inputs = "\<lparr>token = ''mock-github-token'', milliseconds = ''500'',
                  exampleInput = ''test-input''\<rparr>"
  have i: "snd (getActionInputs defaultEnv) = Inr ?inputs"
    by (simp add: defaultEnv_inputs)
  have o: "getOctokit defaultEnv (token ?inputs) = Inr mockGetResolves"
    by (simp add: mockEnv_sel)
  have w: "wait defaultEnv (parseInt10 (milliseconds ?inputs)) = None"
    by (simp add: mockEnv_sel)
  have ok: "failures (run defaultEnv) = []"
    by (rule run_resolves(2)[OF i o mockGetResolves_sel w])
  from ok result_and_processed_outputs[OF i o mockGetResolves_sel ok]
  show ?thesis by (simp add: mockEnv_sel)
qed

text \<open>
  C6. When the \<open>milliseconds\<close> input is absent or empty it defaults to \<open>1000\<close>, and
  when \<open>example-input\<close> is absent or empty it defaults to \<open>default\<close>, so a run with empty
  \<open>example-input\<close> whose fetch resolves with full name \<open>owner/repo\<close> succeeds with result
  \<open>Processed default for owner/repo\<close>. An absent input is read as the empty string.
\<close>

theorem optional_inputs_default:
  "(getInput e ''token'' \<noteq> [] \<and> getInput e ''milliseconds'' = [] \<longrightarrow>
      (\<exists>inputs. snd (getActionInputs e) = Inr inputs \<and> milliseconds inputs = ''1000''))
   \<and> (snd (getActionInputs e) = Inr inputs \<and> getInput e ''example-input'' = [] \<longrightarrow>
        exampleInput inputs = ''default'')
   \<and> (snd (getActionInputs e) = Inr inputs \<and> getInput e ''example-input'' = []
        \<and> getOctokit e (token inputs) = Inr octokit
        \<and> octokit (contextOwner e) (contextRepo e) = Inr repo
        \<and> full_name repo = ''owner/repo''
        \<and> wait e (parseInt10 (milliseconds inputs)) = None \<longrightarrow>
        outputsSet (run e) =
          [(''time'', toTimeString e),
           (''result'', ''Processed default for owner/repo''),
           (''processed'', ''true'')]
        \<and> failures (run e) = [])"
proof (intro conjI impI)
  assume a: "getInput e ''token'' \<noteq> [] \<and> getInput e ''milliseconds'' = []"
  then have "orElse (getInput e ''milliseconds'') ''1000'' = ''1000''"
    by (simp add: orElse_def)
  with a have "snd (getActionInputs e) =
      Inr \<lparr>token = getInput e ''token'', milliseconds = ''1000'',
           exampleInput = orElse (getInput e ''example-input'') ''default''\<rparr>"
    using getActionInputs_ok[of e] by (simp add: parseInt10_default isNaN_def)
  then show "\<exists>inputs. snd (getActionInputs e) = Inr inputs \<and> milliseconds inputs = ''1000''"
    by simp
next
  assume "snd (getActionInputs e) = Inr inputs \<and> getInput e ''example-input'' = []"
  then show "exampleInput inputs = ''default''"
    using getActionInputs_Inr(4)[of e inputs] by (simp add: orElse_def)
next
  assume a: "snd (getActionInputs e) = Inr inputs \<and> getInput e ''example-input'' = []
        \<and> getOctokit e (token inputs) = Inr octokit
        \<and> octokit (contextOwner e) (contextRepo e) = Inr repo
        \<and> full_name repo = ''owner/repo''
        \<and> wait e (parseInt10 (milliseconds inputs)) = None"
  then have x: "exampleInput inputs = ''default''"
    using getActionInputs_Inr(4)[of e inputs] by (simp add: orElse_def)
  from a have i: "snd (getActionInputs e) = Inr inputs"
    and o: "getOctokit e (token inputs) = Inr octokit"
    and g: "octokit (contextOwner e) (contextRepo e) = Inr repo"
    and w: "wait e (parseInt10 (milliseconds inputs)) = None" by simp_all
  from a x run_resolves(1)[OF i o g w]
  show "outputsSet (run e) =
          [(''time'', toTimeString e),
           (''result'', ''Processed default for owner/repo''),
           (''processed'', ''true'')]" by simp
  show "failures (run e) = []" by (rule run_resolves(2)[OF i o g w])
qed

theorem optional_inputs_default_witness:
  "snd (getActionInputs (mockEnv (mockInputs ''mock-github-token'' '''' '''') mockGetResolves))
     = Inr \<lparr>token = ''mock-github-token'', milliseconds = ''1000'', exampleInput = ''default''\<rparr>
   \<and> outputsSet (run (mockEnv (mockInputs ''mock-github-token'' '''' '''') mockGetResolves)) =
       [(''time'', ''12:34:56 GMT+0000 (Coordinated Universal Time)''),
        (''result'', ''Processed default for owner/repo''),
        (''processed'', ''true'')]
   \<and> failures (run (mockEnv (mockInputs ''mock-github-token'' '''' '''') mockGetResolves)) = []"
proof -
  let ?e = "mockEnv (mockInputs ''mock-github-token'' '''' '''') mockGetResolves"
  let ?inputs = "\<lparr>token = ''mock-github-token'', milliseconds = ''1000'',
                  exampleInput = ''default''\<rparr>"
  have t: "getInput ?e ''token'' \<noteq> [] \<and> getInput ?e ''milliseconds'' = []"
    by (simp add: mockEnv_sel mockInputs_sel)
  have i: "snd (getActionInputs ?e) = Inr ?inputs"
    by (simp add: getActionInputs_def mockEnv_sel mockInputs_sel orElse_def parseInt10_default
        isNaN_def Let_def)
  have x: "getInput ?e ''example-input'' = []"
    by (simp add: mockEnv_sel mockInputs_sel)
  have rest: "getOctokit ?e (token ?inputs) = Inr mockGetResolves
        \<and> mockGetResolves (contextOwner ?e) (contextRepo ?e)
            = Inr \<lparr>full_name = ''owner/repo'', name = ''repo'', owner_login = ''owner''\<rparr>
        \<and> full_name \<lparr>full_name = ''owner/repo'', name = ''repo'', owner_login = ''owner''\<rparr>
            = ''owner/repo''
        \<and> wait ?e (parseInt10 (milliseconds ?inputs)) = None"
    by (simp add: mockEnv_sel mockGetResolves_sel)
  from t i x rest
    optional_inputs_default[of ?e ?inputs mockGetResolves
      "\<lparr>full_name = ''owner/repo'', name = ''repo'', owner_login = ''owner''\<rparr>"]
  show ?thesis by (simp add: mockEnv_sel)
qed

text \<open>
  C7. A thrown value that is not an error object propagates unchanged out of the fetch
  stage, whether the request or the delay threw it, and the top-level handler converts
  any such value into the failure message \<open>An unexpected error occurred\<close>, logged once
  as an error and reported once with \<open>setFailed\<close>.
\<close>

theorem non_error_thrown_values:
  "(getOctokit e (token inputs) = Inr octokit
      \<and> octokit (contextOwner e) (contextRepo e) = Inl (NonError v) \<longrightarrow>
        snd (processWithGitHubAPI e inputs) = Inl (NonError v))
   \<and> (getOctokit e (token inputs) = Inr octokit
      \<and> octokit (contextOwner e) (contextRepo e) = Inr repo
      \<and> wait e (parseInt10 (milliseconds inputs)) = Some (NonError v) \<longrightarrow>
        snd (processWithGitHubAPI e inputs) = Inl (NonError v))
   \<and> (snd (run_try e) = Inl (NonError v) \<longrightarrow>
        failures (run e) = [''An unexpected error occurred'']
      \<and> errorsLogged (run e) = [''An unexpected error occurred'']
      \<and> outputsSet (run e) = [])"
proof (intro conjI impI)
  assume "getOctokit e (token inputs) = Inr octokit
      \<and> octokit (contextOwner e) (contextRepo e) = Inl (NonError v)"
  then show "snd (processWithGitHubAPI e inputs) = Inl (NonError v)"
    by (simp add: processWithGitHubAPI_fetch_rejects)
next
  assume "getOctokit e (token inputs) = Inr octokit
      \<and> octokit (contextOwner e) (contextRepo e) = Inr repo
      \<and> wait e (parseInt10 (milliseconds inputs)) = Some (NonError v)"
  then show "snd (processWithGitHubAPI e inputs) = Inl (NonError v)"
    by (simp add: processWithGitHubAPI_wait_rejects)
next
  assume t: "snd (run_try e) = Inl (NonError v)"
  show "failures (run e) = [''An unexpected error occurred'']"
    by (simp add: run_failed_trace(2)[OF t])
  show "errorsLogged (run e) = [''An unexpected error occurred'']"
    by (simp add: run_failed_trace(3)[OF t])
  show "outputsSet (run e) = []"
    by (rule run_failed_trace(1)[OF t])
qed

theorem non_error_thrown_values_witness:
  "snd (processWithGitHubAPI
          (mockEnv (mockInputs ''mock-github-token'' ''500'' ''test-input'')
             (mockGetRejects (NonError (JString ''boom''))))
          \<lparr>token = ''mock-github-token'', milliseconds = ''500'', exampleInput = ''test-input''\<rparr>)
     = Inl (NonError (JString ''boom''))
   \<and> failures (run (mockEnv (mockInputs ''mock-github-token'' ''500'' ''test-input'')
                     (mockGetRejects (NonError (JString ''boom'')))))
       = [''An unexpected error occurred'']
   \<and> errorsLogged (run (mockEnv (mockInputs ''mock-github-token'' ''500'' ''test-input'')
                     (mockGetRejects (NonError (JString ''boom'')))))
       = [''An unexpected error occurred'']"
proof -
  let ?v = "JString ''boom''"
  let ?e = "mockEnv (mockInputs ''mock-github-token'' ''500'' ''test-input'')
              (mockGetRejects (NonError ?v))"
  let ?inputs = "\<lparr>token = ''mock-github-token'', milliseconds = ''500'',
                  exampleInput = ''test-input''\<rparr>"
  have i: "snd (getActionInputs ?e) = Inr ?inputs"
    by (simp add: getActionInputs_def mockEnv_sel mockInputs_sel orElse_def parse500 isNaN_def Let_def)
  have og: "getOctokit ?e (token ?inputs) = Inr (mockGetRejects (NonError ?v))
      \<and> mockGetRejects (NonError ?v) (contextOwner ?e) (contextRepo ?e) = Inl (NonError ?v)"
    by (simp add: mockEnv_sel mockGetRejects_def)
  from og non_error_thrown_values[of ?e ?inputs "mockGetRejects (NonError ?v)" ?v]
  have p: "snd (processWithGitHubAPI ?e ?inputs) = Inl (NonError ?v)" by blast
  from run_process_throws(1)[OF i p] have "snd (run_try ?e) = Inl (NonError ?v)" by simp
  with p non_error_thrown_values[of ?e ?inputs "mockGetRejects (NonError ?v)" ?v]
  show ?thesis by blast
qed

text \<open>
  C8. Two runs with identical configuration inputs and a deterministic metadata fetch
  (the same client and the same ambient owner and repository) produce identical
  \<open>result\<close> and \<open>processed\<close> outputs, whatever the clock says: whenever both runs
  succeed, and also whenever the delay resolves in one exactly when it resolves in the
  other (then both succeed or both fail, and a failed run sets no output).
\<close>

theorem identical_runs_identical_outputs:
  assumes "getInput e1 = getInput e2"
    and "getOctokit e1 = getOctokit e2"
    and "contextOwner e1 = contextOwner e2"
    and "contextRepo e1 = contextRepo e2"
  shows "(failures (run e1) = [] \<and> failures (run e2) = [] \<longrightarrow>
            resultAndProcessed (run e1) = resultAndProcessed (run e2))
       \<and> ((\<forall>n. wait e1 n = None \<longleftrightarrow> wait e2 n = None) \<longrightarrow>
            resultAndProcessed (run e1) = resultAndProcessed (run e2))"
proof (intro conjI impI)
  assume "failures (run e1) = [] \<and> failures (run e2) = []"
  then show "resultAndProcessed (run e1) = resultAndProcessed (run e2)"
    using both_succeed_same_outputs[OF assms] by simp
next
  assume w: "\<forall>n. wait e1 n = None \<longleftrightarrow> wait e2 n = None"
  then have w': "\<forall>n. wait e2 n = None \<longleftrightarrow> wait e1 n = None" by simp
  show "resultAndProcessed (run e1) = resultAndProcessed (run e2)"
  proof (cases "failures (run e1) = []")
    case True
    then have "failures (run e2) = []" by (rule success_transfers[OF assms w])
    with True show ?thesis using both_succeed_same_outputs[OF assms] by simp
  next
    case False
    have "failures (run e2) \<noteq> []"
    proof
      assume "failures (run e2) = []"
      then have "failures (run e1) = []"
        by (rule success_transfers[OF assms(1)[symmetric] assms(2)[symmetric]
              assms(3)[symmetric] assms(4)[symmetric] w'])
      with False show False by simp
    qed
    with False show ?thesis
      by (simp add: resultAndProcessed_def run_fails_outputs)
  qed
qed

theorem identical_runs_identical_outputs_witness:
  "resultAndProcessed (run defaultEnv) =
     resultAndProcessed (run (defaultEnv\<lparr>toTimeString := ''23:59:59 GMT+0000 (Coordinated Universal Time)''\<rparr>))
   \<and> resultAndProcessed (run defaultEnv) =
       [(''result'', ''Processed test-input for owner/repo''), (''processed'', ''true'')]"
proof -
  let ?e2 = "defaultEnv\<lparr>toTimeString := ''23:59:59 GMT+0000 (Coordinated Universal Time)''\<rparr>"
  let ?inputs = "\<lparr>token = ''mock-github-token'', milliseconds = ''500'',
                  exampleInput = ''test-input''\<rparr>"
  have same: "getInput defaultEnv = getInput ?e2" "getOctokit defaultEnv = getOctokit ?e2"
    "contextOwner defaultEnv = contextOwner ?e2" "contextRepo defaultEnv = contextRepo ?e2"
    by simp_all
  have w: "\<forall>n. wait defaultEnv n = None \<longleftrightarrow> wait ?e2 n = None" by simp
  have i: "snd (getActionInputs defaultEnv) = Inr ?inputs"
    by (simp add: defaultEnv_inputs)
  have o: "getOctokit defaultEnv (token ?inputs) = Inr mockGetResolves"
    by (simp add: mockEnv_sel)
  have wt: "wait defaultEnv (parseInt10 (milliseconds ?inputs)) = None"
    by (simp add: mockEnv_sel)
  have r: "resultAndProcessed (run defaultEnv) =
       [(''result'', ''Processed test-input for owner/repo''), (''processed'', ''true'')]"
    by (simp add: resultAndProcessed_def run_resolves(1)[OF i o mockGetResolves_sel wt])
  from w r identical_runs_identical_outputs[OF same] show ?thesis by simp
qed

text \<open>
  C9. Token validation precedes milliseconds validation: for every input record whose
  token is empty and whose \<open>milliseconds\<close> is also invalid, the reported failure message is
  \<open>Input required and not supplied: token\<close>, never the milliseconds message.
\<close>

theorem token_checked_before_milliseconds:
  assumes "getInput e ''token'' = []"
    and "isNaN (parseInt10 (orElse (getInput e ''milliseconds'') ''1000''))
         \<or> ltZero (parseInt10 (orElse (getInput e ''milliseconds'') ''1000''))"
  shows "snd (getActionInputs e) = Inl (newError e ''Input required and not supplied: token'')
       \<and> failures (run e) = [''Input required and not supplied: token'']
       \<and> failures (run e) \<noteq> [''Invalid milliseconds value: '' @ getInput e ''milliseconds''
                               @ ''. Must be a non-negative number.'']"
proof -
  have f: "failures (run e) = [''Input required and not supplied: token'']"
    by (simp add: run_token_empty[OF assms(1)] newError_def run_catch_failures_Error
        del: run_catch.simps)
  show ?thesis
    by (simp add: f getActionInputs_token_empty[OF assms(1)])
qed

theorem token_checked_before_milliseconds_witness:
  "getInput (mockEnv (mockInputs '''' ''-500'' ''valid-value'') mockGetResolves) ''token'' = []
   \<and> ltZero (parseInt10 (orElse
        (getInput (mockEnv (mockInputs '''' ''-500'' ''valid-value'') mockGetResolves)
           ''milliseconds'') ''1000''))
   \<and> failures (run (mockEnv (mockInputs '''' ''-500'' ''valid-value'') mockGetResolves))
       = [''Input required and not supplied: token'']"
proof -
  let ?e = "mockEnv (mockInputs '''' ''-500'' ''valid-value'') mockGetResolves"
  have t: "getInput ?e ''token'' = []"
    by (simp add: mockEnv_sel mockInputs_sel)
  have m: "ltZero (parseInt10 (orElse (getInput ?e ''milliseconds'') ''1000''))"
    by (simp add: mockEnv_sel mockInputs_sel orElse_def parse_minus_500)
  then have m': "isNaN (parseInt10 (orElse (getInput ?e ''milliseconds'') ''1000''))
         \<or> ltZero (parseInt10 (orElse (getInput ?e ''milliseconds'') ''1000''))" ..
  from t m token_checked_before_milliseconds[OF t m'] show ?thesis by simp
qed

text \<open>
  C10, amended. Whenever the delay stage is reached, \<open>wait\<close> is called once, with the
  Number that the same base-10 parse of the same \<open>milliseconds\<close> string gave to input
  validation; that Number is not NaN and not below zero: it is a non-negative integer, or
  \<open>Infinity\<close> when the digits read exceed the range of a double.
\<close>

theorem delay_argument_validated:
  assumes "n \<in> set (waitCalls (run e))"
  shows "waitCalls (run e) = [n]
       \<and> n = parseInt10 (orElse (getInput e ''milliseconds'') ''1000'')
       \<and> \<not> isNaN n \<and> \<not> ltZero n
       \<and> ((\<exists>k. n = Num k \<and> 0 \<le> k) \<or> n = PosInf)"
proof -
  from assms have "waitCalls (run e) \<noteq> []" by auto
  with waitCalls_run[of e] obtain inputs where i: "snd (getActionInputs e) = Inr inputs"
    and w: "waitCalls (run e) = [parseInt10 (milliseconds inputs)]" by blast
  from assms w have n: "n = parseInt10 (milliseconds inputs)" by simp
  note f = getActionInputs_Inr[OF i]
  have m: "milliseconds inputs = orElse (getInput e ''milliseconds'') ''1000''"
    using f(4) by simp
  from f(2,3) n have v: "\<not> isNaN n" "\<not> ltZero n" by simp_all
  from w n m v validated_number[OF v] show ?thesis by simp
qed

theorem delay_argument_validated_witness:
  "Num 500 \<in> set (waitCalls (run defaultEnv))
   \<and> waitCalls (run defaultEnv) = [Num 500]
   \<and> Num 500 = parseInt10 (orElse (getInput defaultEnv ''milliseconds'') ''1000'')"
proof -
  let ?inputs = "\<lparr>token = ''mock-github-token'', milliseconds = ''500'',
                  exampleInput = ''test-input''\<rparr>"
  have p: "processWithGitHubAPI defaultEnv ?inputs =
     ([CoreInfo ''Starting GitHub API processing...'',
       ReposGetCall ''owner'' ''repo'',
       CoreInfo ''Processing repository: owner/repo'',
       CoreInfo ''Processing for 500 milliseconds...'',
       WaitCall (Num 500)],
      Inr \<lparr>time = ''12:34:56 GMT+0000 (Coordinated Universal Time)'',
           result = ''Processed test-input for owner/repo'',
           processed = True\<rparr>)"
    by (simp add: processWithGitHubAPI_def processWithGitHubAPI_try_def mockEnv_sel
        mockGetResolves_sel parse500 print500 Let_def del: printNumber.simps)
  have "run defaultEnv =
     [CoreInfo ''Starting TypeScript Action...'',
      CoreInfo ''Validated inputs: milliseconds=500, example-input=test-input'',
      CoreInfo ''Starting GitHub API processing...'',
      ReposGetCall ''owner'' ''repo'',
      CoreInfo ''Processing repository: owner/repo'',
      CoreInfo ''Processing for 500 milliseconds...'',
      WaitCall (Num 500),
      SetOutput ''time'' ''12:34:56 GMT+0000 (Coordinated Universal Time)'',
      SetOutput ''result'' ''Processed test-input for owner/repo'',
      SetOutput ''processed'' ''true'',
      CoreInfo ''Action completed successfully with result: Processed test-input for owner/repo'',
      CoreInfo ''TypeScript Action completed successfully!'']"
    by (simp add: run_def run_try_def defaultEnv_inputs p setActionOutputs_def boolToString_def)
  then have h: "Num 500 \<in> set (waitCalls (run defaultEnv))" by simp
  from h delay_argument_validated[OF h] show ?thesis by simp
qed

text \<open>
  C10 as stated, for the \<open>milliseconds\<close> input \<open>1\<close> followed by 309 zeros: it parses to
  \<open>Infinity\<close>, which is neither NaN nor below zero, so validation passes and \<open>wait\<close> is
  called with \<open>Infinity\<close>, which is not an integer.
\<close>

theorem delay_argument_infinite:
  "waitCalls (run (mockEnv (mockInputs ''mock-github-token'' hugeDelay ''test-input'')
                    mockGetResolves)) = [PosInf]"
proof -
  let ?e = "mockEnv (mockInputs ''mock-github-token'' hugeDelay ''test-input'') mockGetResolves"
  let ?inputs = "\<lparr>token = ''mock-github-token'', milliseconds = hugeDelay,
                  exampleInput = ''test-input''\<rparr>"
  have "hugeDelay \<noteq> []" by (simp add: hugeDelay_def)
  then have i: "snd (getActionInputs ?e) = Inr ?inputs"
    by (simp add: getActionInputs_def mockEnv_sel mockInputs_sel orElse_def parse_hugeDelay
        isNaN_def Let_def)
  have o: "getOctokit ?e (token ?inputs) = Inr mockGetResolves"
    by (simp add: mockEnv_sel)
  have w: "wait ?e (parseInt10 (milliseconds ?inputs)) = None"
    by (simp add: mockEnv_sel)
  note p = processWithGitHubAPI_resolves[OF o mockGetResolves_sel w]
  have "snd (processWithGitHubAPI ?e ?inputs) =
      Inr \<lparr>time = toTimeString ?e,
           result = ''Processed '' @ exampleInput ?inputs @ '' for owner/repo'',
           processed = True\<rparr>"
    by (simp add: p)
  from run_completes(2)[OF i this] show ?thesis
    by (simp add: p waitCalls_append getActionInputs_log_quiet setActionOutputs_trace
        parse_hugeDelay)
qed

end
